theory Spec2Isabelle
  imports Complex_Main
begin

section \<open>JavaScript values\<close>

text \<open>
  The dashboard is JavaScript. A field read from a JSON object is a number, \<open>null\<close>, or
  missing (\<open>undefined\<close>); arithmetic on a missing field gives \<open>NaN\<close>. Numbers are modelled
  as exact rationals (no rounding, no overflow), so \<open>0.95\<close> is \<open>95/100\<close>. JSON cannot
  carry an infinite number, and every division embedded below stands under the guard the
  source puts in front of it, so no infinite value is needed.
\<close>

datatype jsval = Undefined | Null | NaN | Num rat

text \<open>Truthiness: \<open>undefined\<close>, \<open>null\<close>, \<open>NaN\<close> and \<open>0\<close> are falsy.\<close>

fun truthy :: "jsval \<Rightarrow> bool" where
  "truthy (Num r) = (r \<noteq> 0)"
| "truthy Undefined = False"
| "truthy Null = False"
| "truthy NaN = False"

text \<open>\<open>a || b\<close> on two values, and \<open>a || d\<close> where \<open>d\<close> is already a number: the result
  of the latter is always a number, since the only truthy values are non-zero numbers.\<close>

definition js_or :: "jsval \<Rightarrow> jsval \<Rightarrow> jsval" where
  "js_or a b = (if truthy a then a else b)"

definition or_num :: "jsval \<Rightarrow> rat \<Rightarrow> rat" where
  "or_num a d = (case a of Num r \<Rightarrow> (if r \<noteq> 0 then r else d) | _ \<Rightarrow> d)"

text \<open>ToNumber: \<open>null\<close> is 0, \<open>undefined\<close> is \<open>NaN\<close> (\<open>None\<close>).\<close>

fun toNumber :: "jsval \<Rightarrow> rat option" where
  "toNumber (Num r) = Some r"
| "toNumber Null = Some 0"
| "toNumber Undefined = None"
| "toNumber NaN = None"

definition js_arith :: "(rat \<Rightarrow> rat \<Rightarrow> rat) \<Rightarrow> jsval \<Rightarrow> jsval \<Rightarrow> jsval" where
  "js_arith f a b =
     (case toNumber a of None \<Rightarrow> NaN
      | Some x \<Rightarrow> (case toNumber b of None \<Rightarrow> NaN | Some y \<Rightarrow> Num (f x y)))"

definition js_add :: "jsval \<Rightarrow> jsval \<Rightarrow> jsval" where
  "js_add = js_arith (+)"

definition js_sub :: "jsval \<Rightarrow> jsval \<Rightarrow> jsval" where
  "js_sub = js_arith (-)"

definition js_mul :: "jsval \<Rightarrow> jsval \<Rightarrow> jsval" where
  "js_mul = js_arith (*)"

text \<open>Division. JavaScript gives an infinity for \<open>x / 0\<close> with \<open>x \<noteq> 0\<close>; the one call of
  \<open>js_div\<close> below is under the source's test \<open>invested > 0\<close>, where the divisor is a
  positive number, so the zero case is written as \<open>NaN\<close> and never taken.\<close>

definition js_div :: "jsval \<Rightarrow> jsval \<Rightarrow> jsval" where
  "js_div a b =
     (case toNumber a of None \<Rightarrow> NaN
      | Some x \<Rightarrow> (case toNumber b of None \<Rightarrow> NaN
          | Some y \<Rightarrow> (if y = 0 then NaN else Num (x / y))))"

text \<open>Comparisons convert both sides with ToNumber and are false when either is \<open>NaN\<close>.\<close>

definition js_le :: "jsval \<Rightarrow> jsval \<Rightarrow> bool" where
  "js_le a b = (case toNumber a of None \<Rightarrow> False
      | Some x \<Rightarrow> (case toNumber b of None \<Rightarrow> False | Some y \<Rightarrow> x \<le> y))"

definition js_ge :: "jsval \<Rightarrow> jsval \<Rightarrow> bool" where
  "js_ge a b = js_le b a"

text \<open>\<open>String.prototype.endsWith\<close>.\<close>

definition endsWith :: "string \<Rightarrow> string \<Rightarrow> bool" where
  "endsWith s suf = (take (length suf) (rev s) = rev suf)"

section \<open>Positions and live ticks\<close>

text \<open>
  \<open>live_pnl\<close> is the \<open>pnl\<close> object of a tick, \<open>live_data\<close> the tick itself, \<open>position\<close>
  a position as the page holds it. Position fields keep the names of the source; the
  fields of the other objects carry a prefix (\<open>lp_\<close>, \<open>ld_\<close>), because several of them
  share a name with a position field.
\<close>

record live_pnl =
  lp_pnl_net :: jsval
  lp_pnl_percent :: jsval
  lp_pnl_gross :: jsval
  lp_commission_native :: jsval
  lp_current_value :: jsval
  lp_invested :: jsval

record live_data =
  ld_price :: jsval
  ld_change :: jsval
  ld_change_percent :: jsval
  ld_pnl :: "live_pnl option"

record position =
  ident :: nat
  ticker :: string
  status :: string
  entry_price :: jsval
  quantity :: jsval
  buy_commission :: jsval
  sell_commission :: jsval
  exit_price :: jsval
  stop_loss :: jsval
  take_profit_1 :: jsval
  take_profit_2 :: jsval
  current_price :: jsval
  live_data :: "live_data option"
  pnl_value :: jsval
  pnl_percent :: jsval
  pnl_gross :: jsval
  current_value :: jsval
  invested :: jsval

text \<open>The empty object \<open>{}\<close>, where every field is missing, and \<open>p.live_data || {}\<close>.\<close>

definition empty_live :: live_data where
  "empty_live = \<lparr> ld_price = Undefined, ld_change = Undefined,
                   ld_change_percent = Undefined, ld_pnl = None \<rparr>"

definition liveDataOf :: "position \<Rightarrow> live_data" where
  "liveDataOf p = (case live_data p of Some l \<Rightarrow> l | None \<Rightarrow> empty_live)"

section \<open>Valuation (position-card.js)\<close>

definition marketCurrency :: "position \<Rightarrow> string" where
  "marketCurrency p =
     (let t = ticker p in
      if endsWith t ''.SW'' \<or> endsWith t ''.VX'' then ''CHF''
      else if endsWith t ''.PA'' \<or> endsWith t ''.DE'' \<or> endsWith t ''.AS'' then ''EUR''
      else if endsWith t ''.L'' then ''GBP''
      else ''USD'')"

text \<open>The table \<open>CHF_RATES\<close>; a key that is not in it reads as \<open>undefined\<close>.\<close>

definition CHF_RATES :: "string \<Rightarrow> jsval" where
  "CHF_RATES c =
     (if c = ''USD'' then Num (113/100)
      else if c = ''EUR'' then Num (105/100)
      else if c = ''GBP'' then Num (89/100)
      else if c = ''CHF'' then Num 1
      else Undefined)"

record pnl_data =
  pd_value :: rat
  pd_percent :: rat
  pd_gross :: rat
  pd_fees :: jsval
  pd_isProfit :: bool
  pd_currentPrice :: rat
  pd_invested :: rat
  pd_currentValue :: rat

definition pnlData :: "position \<Rightarrow> pnl_data" where
  "pnlData p =
     (let liveData = liveDataOf p;
          currentPrice = or_num (ld_price liveData)
                           (or_num (current_price p)
                             (or_num (exit_price p) (or_num (entry_price p) 0)));
          quantity' = or_num (quantity p) 1;
          entryPrice = or_num (entry_price p) 0;
          buyComm = or_num (buy_commission p) 0;
          sellComm = or_num (sell_commission p) 0;
          totalFeesChf = buyComm + sellComm;
          totalFees =
            (case ld_pnl liveData of
               Some lp \<Rightarrow>
                 (if lp_commission_native lp \<noteq> Undefined then lp_commission_native lp
                  else Num (totalFeesChf * or_num (CHF_RATES (marketCurrency p)) 1))
             | None \<Rightarrow> Num (totalFeesChf * or_num (CHF_RATES (marketCurrency p)) 1));
          (pnlValue, pnlPercent, pnlGross) =
            (case ld_pnl liveData of
               Some lp \<Rightarrow>
                 (lp_pnl_net lp, lp_pnl_percent lp,
                  js_or (lp_pnl_gross lp) (js_add (lp_pnl_net lp) totalFees))
             | None \<Rightarrow>
                 (if pnl_value p \<noteq> Undefined then
                    (pnl_value p, Num (or_num (pnl_percent p) 0),
                     js_or (pnl_gross p) (js_add (pnl_value p) totalFees))
                  else
                    (let exitPrice = or_num (exit_price p) currentPrice;
                         invested' = entryPrice * quantity';
                         currentValue = exitPrice * quantity';
                         pnlGross' = currentValue - invested';
                         pnlValue' = js_sub (Num pnlGross') totalFees
                     in (pnlValue',
                         (if invested' > 0
                          then js_mul (js_div pnlValue' (Num invested')) (Num 100)
                          else Num 0),
                         Num pnlGross'))))
      in \<lparr> pd_value = or_num pnlValue 0,
           pd_percent = or_num pnlPercent 0,
           pd_gross = or_num pnlGross 0,
           pd_fees = totalFees,
           pd_isProfit = (or_num pnlValue 0 \<ge> 0),
           pd_currentPrice = currentPrice,
           pd_invested = entryPrice * quantity',
           pd_currentValue = currentPrice * quantity' \<rparr>)"

text \<open>The result of \<open>alertType\<close> is one of the strings \<open>sl\<close>, \<open>tp2\<close>, \<open>tp1\<close>, or \<open>null\<close>
  (\<open>None\<close>).\<close>

definition alertType :: "position \<Rightarrow> string option" where
  "alertType p =
     (let currentPrice = pd_currentPrice (pnlData p) in
      if status p \<noteq> ''open'' \<or> currentPrice = 0 then None
      else if truthy (stop_loss p) \<and> js_le (Num currentPrice) (stop_loss p) then Some ''sl''
      else if truthy (take_profit_2 p) \<and> js_ge (Num currentPrice) (take_profit_2 p)
        then Some ''tp2''
      else if truthy (take_profit_1 p) \<and> js_ge (Num currentPrice) (take_profit_1 p)
        then Some ''tp1''
      else None)"

definition markerPosition :: "position \<Rightarrow> rat" where
  "markerPosition p =
     (let currentPrice = pd_currentPrice (pnlData p);
          entry = or_num (entry_price p) currentPrice;
          sl = or_num (stop_loss p) (entry * (95/100));
          tp1 = or_num (take_profit_1 p) (entry * (105/100));
          tp2 = or_num (take_profit_2 p) (tp1 * (105/100));
          totalRange = tp2 - sl
      in if totalRange \<le> 0 then 50
         else max 2 (min 98 (((currentPrice - sl) / totalRange) * 100)))"

definition entryPosition :: "position \<Rightarrow> rat" where
  "entryPosition p =
     (let entry = or_num (entry_price p) (pd_currentPrice (pnlData p));
          sl = or_num (stop_loss p) (entry * (95/100));
          tp2 = or_num (take_profit_2 p) (entry * (11/10));
          totalRange = tp2 - sl
      in if totalRange \<le> 0 then 50
         else ((entry - sl) / totalRange) * 100)"

definition tp1Position :: "position \<Rightarrow> rat" where
  "tp1Position p =
     (let entry = or_num (entry_price p) (pd_currentPrice (pnlData p));
          sl = or_num (stop_loss p) (entry * (95/100));
          tp1 = or_num (take_profit_1 p) (entry * (105/100));
          tp2 = or_num (take_profit_2 p) (entry * (11/10));
          totalRange = tp2 - sl
      in if totalRange \<le> 0 then 75
         else ((tp1 - sl) / totalRange) * 100)"

text \<open>A position as the server lists it before any tick: only the ledger fields are set.\<close>

definition ledger :: "string \<Rightarrow> string \<Rightarrow> rat \<Rightarrow> rat \<Rightarrow> rat \<Rightarrow> rat \<Rightarrow> position" where
  "ledger t s e q b c =
     \<lparr> ident = 0, ticker = t, status = s, entry_price = Num e, quantity = Num q,
       buy_commission = Num b, sell_commission = Num c, exit_price = Undefined,
       stop_loss = Undefined, take_profit_1 = Undefined, take_profit_2 = Undefined,
       current_price = Undefined, live_data = None, pnl_value = Undefined,
       pnl_percent = Undefined, pnl_gross = Undefined, current_value = Undefined,
       invested = Undefined \<rparr>"

text \<open>A tick that carries a price and nothing else.\<close>

definition price_tick :: "rat \<Rightarrow> live_data" where
  "price_tick x = empty_live \<lparr> ld_price := Num x \<rparr>"

section \<open>Tick merge and aggregate stats (portfolio-page.js)\<close>

text \<open>\<open>liveData.pnl?.f\<close>: the field \<open>f\<close> of the tick's \<open>pnl\<close> object, \<open>undefined\<close> when the
  tick has none.\<close>

definition pnl_field :: "(live_pnl \<Rightarrow> jsval) \<Rightarrow> live_data \<Rightarrow> jsval" where
  "pnl_field f liveData = (case ld_pnl liveData of None \<Rightarrow> Undefined | Some lp \<Rightarrow> f lp)"

text \<open>The object literal \<open>{...p, current_price: liveData.price, live_data: liveData, ...}\<close>.\<close>

definition applyTick :: "live_data \<Rightarrow> position \<Rightarrow> position" where
  "applyTick liveData p =
     p \<lparr> current_price := ld_price liveData,
         live_data := Some liveData,
         pnl_value := pnl_field lp_pnl_net liveData,
         pnl_percent := pnl_field lp_pnl_percent liveData,
         pnl_gross := pnl_field lp_pnl_gross liveData,
         current_value := pnl_field lp_current_value liveData,
         invested := pnl_field lp_invested liveData \<rparr>"

text \<open>
  A batch \<open>result.prices\<close> is an object built by \<open>JSON.parse\<close>; the map holds its own
  entries, each a tick object keyed by ticker. The read \<open>result.prices[p.ticker]\<close> follows
  the prototype chain: for a key that is not an own entry it finds the member of
  \<open>Object.prototype\<close> of that name, if there is one. Such a member is a function (for
  \<open>__proto__\<close> the prototype object itself): it is truthy and has none of the fields of a
  tick, so every read of a tick field on it gives \<open>undefined\<close>, as on \<open>{}\<close>. For any
  other key the read gives \<open>undefined\<close> (\<open>None\<close>).
\<close>

definition object_prototype :: "string list" where
  "object_prototype =
     [''constructor'', ''toString'', ''toLocaleString'', ''valueOf'', ''hasOwnProperty'',
      ''isPrototypeOf'', ''propertyIsEnumerable'', ''__defineGetter__'', ''__defineSetter__'',
      ''__lookupGetter__'', ''__lookupSetter__'', ''__proto__'']"

definition readPrice :: "(string \<rightharpoonup> live_data) \<Rightarrow> string \<Rightarrow> live_data option" where
  "readPrice prices k =
     (case prices k of
        Some liveData \<Rightarrow> Some liveData
      | None \<Rightarrow> (if k \<in> set object_prototype then Some empty_live else None))"

text \<open>The callback of \<open>this.positions.map\<close>, the same in \<open>_fetchLivePrices\<close> and in the
  stream's \<open>onmessage\<close>.\<close>

definition mergeOne :: "(string \<rightharpoonup> live_data) \<Rightarrow> position \<Rightarrow> position" where
  "mergeOne prices p =
     (if status p = ''open'' then
        (case readPrice prices (ticker p) of
           Some liveData \<Rightarrow> applyTick liveData p
         | None \<Rightarrow> p)
      else p)"

definition mergePrices :: "(string \<rightharpoonup> live_data) \<Rightarrow> position list \<Rightarrow> position list" where
  "mergePrices prices ps = map (mergeOne prices) ps"

record stats =
  st_value :: jsval
  st_invested :: jsval
  st_openPositions :: nat
  st_pnlOpen :: rat
  st_pnlRealized :: jsval
  st_pnlGlobal :: rat

text \<open>The three constants of the body of \<open>openPositions.forEach\<close>: \<open>invested\<close>, \<open>value\<close>
  and \<open>pnl\<close> of one position.\<close>

definition investedOf :: "position \<Rightarrow> jsval" where
  "investedOf p = js_or (invested p) (js_mul (entry_price p) (Num (or_num (quantity p) 1)))"

definition valueOf :: "position \<Rightarrow> jsval" where
  "valueOf p = js_or (current_value p) (investedOf p)"

definition pnlOf :: "position \<Rightarrow> rat" where
  "pnlOf p = or_num (pnl_value p) 0"

text \<open>The body of \<open>openPositions.forEach\<close>, on the three running totals.\<close>

definition statsStep :: "position \<Rightarrow> jsval \<times> jsval \<times> rat \<Rightarrow> jsval \<times> jsval \<times> rat" where
  "statsStep p acc =
     (case acc of (totalValue, totalInvested, pnlOpen) \<Rightarrow>
        (js_add totalValue (valueOf p), js_add totalInvested (investedOf p), pnlOpen + pnlOf p))"

definition updateStatsFromPositions :: "position list \<Rightarrow> stats \<Rightarrow> stats" where
  "updateStatsFromPositions ps st =
     (let openPositions = filter (\<lambda>p. status p = ''open'') ps in
      case fold statsStep openPositions (Num 0, Num 0, 0) of
        (totalValue, totalInvested, pnlOpen) \<Rightarrow>
          st \<lparr> st_value := totalValue,
               st_invested := totalInvested,
               st_openPositions := length openPositions,
               st_pnlOpen := pnlOpen,
               st_pnlGlobal := pnlOpen + or_num (st_pnlRealized st) 0 \<rparr>)"

text \<open>The page state, and the handler of one frame of the price stream. A frame whose
  body does not parse is \<open>Malformed\<close>: \<open>JSON.parse\<close> throws and the handler's \<open>catch\<close>
  leaves the page as it was.\<close>

record page =
  positions :: "position list"
  page_stats :: stats

record price_result =
  pr_success :: bool
  pr_prices :: "(string \<rightharpoonup> live_data) option"

datatype frame = Malformed | Decoded price_result

definition applyPrices :: "(string \<rightharpoonup> live_data) \<Rightarrow> page \<Rightarrow> page" where
  "applyPrices prices pg =
     (let ps = mergePrices prices (positions pg)
      in pg \<lparr> positions := ps, page_stats := updateStatsFromPositions ps (page_stats pg) \<rparr>)"

definition onPriceMessage :: "frame \<Rightarrow> page \<Rightarrow> page" where
  "onPriceMessage f pg =
     (case f of
        Malformed \<Rightarrow> pg
      | Decoded result \<Rightarrow>
          (if pr_success result then
             (case pr_prices result of Some prices \<Rightarrow> applyPrices prices pg | None \<Rightarrow> pg)
           else pg))"

section \<open>The stream client (sse-client.js)\<close>

text \<open>
  \<open>sse_client\<close> holds the fields of \<open>SSEClient\<close> and the part of the browser they refer
  to: \<open>eventSource\<close> is the serial number of the \<open>EventSource\<close> object the client holds
  (\<open>None\<close> for \<open>null\<close>), \<open>sources\<close> counts the objects constructed so far, \<open>timers\<close> is the
  browser's table of pending timeouts (identifier and delay), \<open>nextTimer\<close> the next
  identifier \<open>setTimeout\<close> returns (identifiers are positive, so a stored one is truthy),
  and \<open>printed\<close> the pairs (delay, attempt) that \<open>onerror\<close> prints when it schedules a
  reconnect. \<open>maxRetries = None\<close> is \<open>Infinity\<close>.
\<close>

record sse_client =
  reconnectDelay :: rat
  maxRetries :: "rat option"
  retries :: nat
  eventSource :: "nat option"
  reconnectTimer :: "nat option"
  isManualClose :: bool
  sources :: nat
  timers :: "(nat \<times> rat) list"
  nextTimer :: nat
  printed :: "(rat \<times> nat) list"
  delivered :: nat

definition new_client :: "jsval \<Rightarrow> jsval \<Rightarrow> sse_client" where
  "new_client optReconnectDelay optMaxRetries =
     \<lparr> reconnectDelay = or_num optReconnectDelay 5000,
       maxRetries = (if truthy optMaxRetries then toNumber optMaxRetries else None),
       retries = 0, eventSource = None, reconnectTimer = None, isManualClose = False,
       sources = 0, timers = [], nextTimer = 1, printed = [], delivered = 0 \<rparr>"

text \<open>\<open>_createEventSource\<close>: the object held, if any, is closed and a new one replaces it.\<close>

definition createEventSource :: "sse_client \<Rightarrow> sse_client" where
  "createEventSource c = c \<lparr> eventSource := Some (Suc (sources c)), sources := Suc (sources c) \<rparr>"

definition connect :: "sse_client \<Rightarrow> sse_client" where
  "connect c = createEventSource (c \<lparr> isManualClose := False \<rparr>)"

text \<open>\<open>onmessage\<close>: the counter is reset before the body is parsed; \<open>ok\<close> says whether
  \<open>JSON.parse\<close> succeeds, and only then is the frame handed to \<open>onMessage\<close>.\<close>

definition onmessage :: "bool \<Rightarrow> sse_client \<Rightarrow> sse_client" where
  "onmessage ok c =
     (let c' = c \<lparr> retries := 0 \<rparr>
      in if ok then c' \<lparr> delivered := Suc (delivered c') \<rparr> else c')"

definition reconnect_delay :: "rat \<Rightarrow> nat \<Rightarrow> rat" where
  "reconnect_delay base n = min (base * of_nat n) 30000"

definition below_max :: "nat \<Rightarrow> rat option \<Rightarrow> bool" where
  "below_max n m = (case m of None \<Rightarrow> True | Some k \<Rightarrow> of_nat n < k)"

definition onerror :: "sse_client \<Rightarrow> sse_client" where
  "onerror c =
     (if isManualClose c then c
      else if below_max (retries c) (maxRetries c) then
        (let retries' = Suc (retries c);
             delay = reconnect_delay (reconnectDelay c) retries'
         in c \<lparr> retries := retries',
                printed := printed c @ [(delay, retries')],
                reconnectTimer := Some (nextTimer c),
                timers := timers c @ [(nextTimer c, delay)],
                nextTimer := Suc (nextTimer c) \<rparr>)
      else c)"

definition onopen :: "sse_client \<Rightarrow> sse_client" where
  "onopen c = c \<lparr> retries := 0 \<rparr>"

definition clearTimeout :: "nat \<Rightarrow> (nat \<times> rat) list \<Rightarrow> (nat \<times> rat) list" where
  "clearTimeout i ts = filter (\<lambda>t. fst t \<noteq> i) ts"

definition close :: "sse_client \<Rightarrow> sse_client" where
  "close c =
     (let c1 = c \<lparr> isManualClose := True \<rparr>;
          c2 = (case reconnectTimer c1 of
                  Some i \<Rightarrow> c1 \<lparr> timers := clearTimeout i (timers c1), reconnectTimer := None \<rparr>
                | None \<Rightarrow> c1)
      in case eventSource c2 of
           Some e \<Rightarrow> c2 \<lparr> eventSource := None \<rparr>
         | None \<Rightarrow> c2)"

text \<open>
  What can happen to a client. The three handlers belong to the \<open>EventSource\<close> object the
  client holds, and a closed object dispatches nothing, so their events do nothing when
  \<open>eventSource\<close> is \<open>None\<close>. A timeout fires only while it is in the table, leaves the
  table, and runs its callback, which is \<open>_createEventSource\<close>.
\<close>

datatype event = Message bool | TransportError | Opened | TimerFired nat | Close | Connect

definition step :: "event \<Rightarrow> sse_client \<Rightarrow> sse_client" where
  "step ev c =
     (case ev of
        Message ok \<Rightarrow> (if eventSource c = None then c else onmessage ok c)
      | TransportError \<Rightarrow> (if eventSource c = None then c else onerror c)
      | Opened \<Rightarrow> (if eventSource c = None then c else onopen c)
      | TimerFired i \<Rightarrow>
          (if i \<in> fst ` set (timers c)
           then createEventSource (c \<lparr> timers := clearTimeout i (timers c) \<rparr>)
           else c)
      | Close \<Rightarrow> close c
      | Connect \<Rightarrow> connect c)"

definition run :: "event list \<Rightarrow> sse_client \<Rightarrow> sse_client" where
  "run evs c = fold step evs c"

section \<open>The P&L chart (portfolio chart component)\<close>


datatype point = Point (pt_x: rat) (pt_y: rat) (pt_value: rat)







text \<open>The two crossing formulas, as written in the positive and in the negative loop.\<close>

definition intersectPos :: "point \<Rightarrow> point \<Rightarrow> rat" where
  "intersectPos prev p =
     pt_x prev + (pt_x p - pt_x prev) * (pt_value prev / (pt_value prev - pt_value p))"

definition intersectNeg :: "point \<Rightarrow> point \<Rightarrow> rat" where
  "intersectNeg prev p =
     pt_x prev + (pt_x p - pt_x prev) * (- pt_value prev / (pt_value p - pt_value prev))"











section \<open>Concrete inputs\<close>

text \<open>The reference scenario: entry price 100, quantity 10, buy commission 5,
  sell commission 0, and a tick with price 110 merged in, on ticker \<open>t\<close>.\<close>

definition scenario :: "string \<Rightarrow> position" where
  "scenario t = applyTick (price_tick 110) (ledger t ''open'' 100 10 5 0)"

text \<open>A position with entry price 0 whose tick carries figures computed by the server.\<close>

definition server_pnl :: live_pnl where
  "server_pnl = \<lparr> lp_pnl_net = Num 50, lp_pnl_percent = Num 7, lp_pnl_gross = Num 50,
                   lp_commission_native = Num 0, lp_current_value = Num 50,
                   lp_invested = Num 0 \<rparr>"

definition free_shares :: position where
  "free_shares =
     applyTick (price_tick 5 \<lparr> ld_pnl := Some server_pnl \<rparr>) (ledger ''AAPL'' ''open'' 0 10 0 0)"

text \<open>A position with quantity 0, entry price 100 and a tick with price 110.\<close>

definition no_shares :: position where
  "no_shares = applyTick (price_tick 110) (ledger ''AAPL'' ''open'' 100 0 0 0)"

text \<open>An open position with a stop-loss and no price anywhere.\<close>

definition unpriced :: position where
  "unpriced = (ledger ''AAPL'' ''open'' 0 10 0 0) \<lparr> stop_loss := Num 90 \<rparr>"

text \<open>Stop-loss 90, first target 110, second target 120, price 125.\<close>

definition above_targets :: position where
  "above_targets =
     applyTick (price_tick 125)
       ((ledger ''AAPL'' ''open'' 100 10 0 0)
          \<lparr> stop_loss := Num 90, take_profit_1 := Num 110, take_profit_2 := Num 120 \<rparr>)"

text \<open>Entry price 100, first target 150, no stop-loss and no second target, price 120.\<close>

definition one_target :: position where
  "one_target =
     applyTick (price_tick 120)
       ((ledger ''AAPL'' ''open'' 100 10 0 0) \<lparr> take_profit_1 := Num 150 \<rparr>)"

text \<open>Last write wins: the tick for ticker \<open>k\<close> that arrived last in a sequence of
  batches (the head of the list arrived first), if any batch has one.\<close>

fun lastTick :: "(string \<rightharpoonup> live_data) list \<Rightarrow> string \<Rightarrow> live_data option" where
  "lastTick [] k = None"
| "lastTick (b # bs) k = (case lastTick bs k of Some t \<Rightarrow> Some t | None \<Rightarrow> b k)"

text \<open>What a position must be after the batches \<open>bs\<close>: untouched, or carrying exactly the
  last tick for its ticker.\<close>

definition latest :: "(string \<rightharpoonup> live_data) list \<Rightarrow> position \<Rightarrow> position" where
  "latest bs p =
     (if status p = ''open'' then
        (case lastTick bs (ticker p) of Some t \<Rightarrow> applyTick t p | None \<Rightarrow> p)
      else p)"

text \<open>The batch a frame delivers, if it delivers one.\<close>

definition frame_prices :: "frame \<Rightarrow> (string \<rightharpoonup> live_data) option" where
  "frame_prices f =
     (case f of Malformed \<Rightarrow> None
      | Decoded result \<Rightarrow> (if pr_success result then pr_prices result else None))"

text \<open>A small portfolio: an open and a closed position on the same ticker and an open one
  on another; two ticks for the first ticker, the first with server figures, the second
  with a price only; realized P&L 12.\<close>

definition portfolio :: "position list" where
  "portfolio =
     [ledger ''AAPL'' ''open'' 100 10 5 0,
      (ledger ''AAPL'' ''closed'' 80 5 0 0) \<lparr> pnl_value := Num 40 \<rparr>,
      ledger ''NESN.SW'' ''open'' 50 2 0 0]"

definition first_tick :: live_data where
  "first_tick = price_tick 5 \<lparr> ld_pnl := Some server_pnl \<rparr>"

definition first_batch :: "string \<rightharpoonup> live_data" where
  "first_batch = [''AAPL'' \<mapsto> first_tick]"

definition second_batch :: "string \<rightharpoonup> live_data" where
  "second_batch = [''AAPL'' \<mapsto> price_tick 110]"

definition start_stats :: stats where
  "start_stats = \<lparr> st_value = Num 0, st_invested = Num 0, st_openPositions = 0, st_pnlOpen = 0,
                    st_pnlRealized = Num 12, st_pnlGlobal = 0 \<rparr>"

definition start_page :: page where
  "start_page = \<lparr> positions = portfolio, page_stats = start_stats \<rparr>"

text \<open>Four frames of the price stream: the first batch, a body that does not parse, a
  frame without the \<open>success\<close> flag, and the second batch.\<close>

definition stream :: "frame list" where
  "stream =
     [Decoded \<lparr> pr_success = True, pr_prices = Some first_batch \<rparr>,
      Malformed,
      Decoded \<lparr> pr_success = False, pr_prices = Some first_batch \<rparr>,
      Decoded \<lparr> pr_success = True, pr_prices = Some second_batch \<rparr>]"

text \<open>A client built with the default options and connected; the same after three
  transport errors; and after two transport errors followed by \<open>close()\<close>.\<close>

definition fresh_client :: sse_client where
  "fresh_client = connect (new_client Undefined Undefined)"

definition three_errors :: sse_client where
  "three_errors = run [TransportError, TransportError, TransportError] fresh_client"

definition closed_client :: sse_client where
  "closed_client = run [TransportError, TransportError, Close] fresh_client"


text \<open>An open position whose ticker is the name of a member of \<open>Object.prototype\<close>, with
  a current price and a net P&L stored by the server; and a batch without entries.\<close>

definition proto_position :: position where
  "proto_position =
     (ledger ''constructor'' ''open'' 100 10 5 0)
       \<lparr> current_price := Num 120, pnl_value := Num 195 \<rparr>"

definition empty_batch :: "string \<rightharpoonup> live_data" where
  "empty_batch = Map.empty"

text \<open>A holding that has become worthless: the server's figures are invested 1000, current
  value 0, net P&L -1005.\<close>

definition worthless_pnl :: live_pnl where
  "worthless_pnl = \<lparr> lp_pnl_net = Num (- 1005), lp_pnl_percent = Num (- 201 / 2),
                      lp_pnl_gross = Num (- 1000), lp_commission_native = Num 5,
                      lp_current_value = Num 0, lp_invested = Num 1000 \<rparr>"

definition worthless :: position where
  "worthless =
     applyTick (empty_live \<lparr> ld_price := Num 0, ld_pnl := Some worthless_pnl \<rparr>)
       (ledger ''AAPL'' ''open'' 100 10 5 0)"

section \<open>Unfolding rules\<close>

lemmas js_defs = or_num_def js_or_def js_add_def js_sub_def js_mul_def js_div_def js_arith_def
  js_le_def js_ge_def

lemmas sse_defs = step_def run_def onerror_def onmessage_def onopen_def close_def connect_def
  createEventSource_def new_client_def clearTimeout_def below_max_def reconnect_delay_def

lemmas ex_defs = ledger_def price_tick_def empty_live_def applyTick_def pnl_field_def
  liveDataOf_def

section \<open>Valuation of one position\<close>

text \<open>
  C1 (as the code has it). In the scenario (entry price 100, quantity 10, buy commission 5,
  sell commission 0, tick price 110, no \<open>pnl\<close> object in the tick) the valuation gives
  invested 1000, current value 1100 and gross P&L 100 on every ticker. With no commission
  supplied by the tick, the fees are the ledger commissions multiplied by the rate that
  \<open>CHF_RATES\<close> has for the ticker's market currency, and net P&L and percentage follow
  from them. On a ticker of the CHF market the rate is 1, so fees are 5, net P&L is 95 and
  the percentage is 9.5.
\<close>

theorem pnlData_scenario:
  "pd_invested (pnlData (scenario t)) = 1000
   \<and> pd_currentValue (pnlData (scenario t)) = 1100
   \<and> pd_gross (pnlData (scenario t)) = 100
   \<and> pd_fees (pnlData (scenario t)) = Num (5 * or_num (CHF_RATES (marketCurrency (scenario t))) 1)
   \<and> pd_value (pnlData (scenario t)) = 100 - 5 * or_num (CHF_RATES (marketCurrency (scenario t))) 1
   \<and> pd_percent (pnlData (scenario t))
       = (100 - 5 * or_num (CHF_RATES (marketCurrency (scenario t))) 1) / 1000 * 100
   \<and> (marketCurrency (scenario t) = ''CHF'' \<longrightarrow>
         pd_fees (pnlData (scenario t)) = Num 5
         \<and> pd_value (pnlData (scenario t)) = 95
         \<and> pd_percent (pnlData (scenario t)) = 19 / 2)"
  by (simp add: pnlData_def scenario_def ex_defs js_defs Let_def CHF_RATES_def marketCurrency_def)

theorem pnlData_scenario_witness:
  "marketCurrency (scenario ''NESN.SW'') = ''CHF''
   \<and> pd_fees (pnlData (scenario ''NESN.SW'')) = Num 5
   \<and> pd_value (pnlData (scenario ''NESN.SW'')) = 95
   \<and> pd_percent (pnlData (scenario ''NESN.SW'')) = 19 / 2"
proof -
  have c: "marketCurrency (scenario ''NESN.SW'') = ''CHF''"
    by (simp add: marketCurrency_def scenario_def ex_defs endsWith_def)
  show ?thesis using c pnlData_scenario [of "''NESN.SW''"] by simp
qed

text \<open>On a ticker of the USD market the same scenario has fees 5.65, net P&L 94.35 and
  percentage 9.435: the commissions are not taken as they stand.\<close>

theorem pnlData_scenario_usd:
  "pd_fees (pnlData (scenario ''AAPL'')) = Num (113 / 20)
   \<and> pd_fees (pnlData (scenario ''AAPL'')) \<noteq> Num (5 + 0)
   \<and> pd_value (pnlData (scenario ''AAPL'')) = 1887 / 20
   \<and> pd_value (pnlData (scenario ''AAPL'')) \<noteq> 95
   \<and> pd_percent (pnlData (scenario ''AAPL'')) = 1887 / 200
   \<and> pd_percent (pnlData (scenario ''AAPL'')) \<noteq> 19 / 2"
  by (simp add: pnlData_def scenario_def ex_defs js_defs Let_def CHF_RATES_def
      marketCurrency_def endsWith_def)

lemma or_num_zero_iff: "or_num a d = 0 \<longleftrightarrow> \<not> truthy a \<and> d = 0"
  by (cases a) (auto simp: or_num_def)

lemma pnlData_currentPrice:
  "pd_currentPrice (pnlData p) =
     or_num (ld_price (liveDataOf p))
       (or_num (current_price p) (or_num (exit_price p) (or_num (entry_price p) 0)))"
  by (simp add: pnlData_def Let_def split_def)

lemma currentPrice_zero_iff:
  "pd_currentPrice (pnlData p) = 0 \<longleftrightarrow>
     \<not> truthy (ld_price (liveDataOf p)) \<and> \<not> truthy (current_price p)
     \<and> \<not> truthy (exit_price p) \<and> \<not> truthy (entry_price p)"
  by (simp add: pnlData_currentPrice or_num_zero_iff)

text \<open>When the tick carries a \<open>pnl\<close> object, or the position a stored \<open>pnl_value\<close>, the
  percentage is the supplied figure (0 when that is missing or not a number); nothing is
  divided.\<close>

lemma pnlData_percent_supplied:
  "ld_pnl (liveDataOf p) = Some lp \<Longrightarrow> pd_percent (pnlData p) = or_num (lp_pnl_percent lp) 0"
  by (simp add: pnlData_def Let_def)

lemma pnlData_percent_stored:
  "ld_pnl (liveDataOf p) = None \<Longrightarrow> pnl_value p \<noteq> Undefined \<Longrightarrow>
   pd_percent (pnlData p) = or_num (pnl_percent p) 0"
  by (simp add: pnlData_def Let_def or_num_def)

text \<open>
  C9 (as the code has it). When neither the tick carries a \<open>pnl\<close> object nor the position
  a stored \<open>pnl_value\<close>, the percentage is computed locally, and it is exactly 0 whenever
  the invested amount the code computes, \<open>(entry_price || 0) * (quantity || 1)\<close>, is 0 (or
  negative): the division is behind the test \<open>invested > 0\<close>.
\<close>

theorem pnlData_percent_guarded:
  "ld_pnl (liveDataOf p) = None \<Longrightarrow> pnl_value p = Undefined \<Longrightarrow>
   pd_invested (pnlData p) \<le> 0 \<Longrightarrow>
   pd_percent (pnlData p) = 0
   \<and> pd_invested (pnlData p) = or_num (entry_price p) 0 * or_num (quantity p) 1"
  by (simp add: pnlData_def Let_def or_num_def)

theorem pnlData_percent_guarded_witness:
  "ld_pnl (liveDataOf unpriced) = None \<and> pnl_value unpriced = Undefined
   \<and> pd_invested (pnlData unpriced) \<le> 0 \<and> pd_percent (pnlData unpriced) = 0"
proof -
  have a: "ld_pnl (liveDataOf unpriced) = None" by (simp add: unpriced_def ex_defs)
  have b: "pnl_value unpriced = Undefined" by (simp add: unpriced_def ex_defs)
  have c: "pd_invested (pnlData unpriced) \<le> 0"
    by (simp add: pnlData_def unpriced_def ex_defs js_defs Let_def)
  show ?thesis using a b c pnlData_percent_guarded [OF a b c] by simp
qed

text \<open>Two positions whose entry price times quantity is 0 and whose percentage is not:
  one with entry price 0 and a percentage of 7 supplied by the server, one with quantity 0,
  which the code replaces by 1.\<close>

theorem pnlData_percent_nonzero:
  "js_mul (entry_price free_shares) (quantity free_shares) = Num 0
   \<and> pd_invested (pnlData free_shares) = 0
   \<and> pd_percent (pnlData free_shares) = 7
   \<and> js_mul (entry_price no_shares) (quantity no_shares) = Num 0
   \<and> pd_percent (pnlData no_shares) = 10"
  by (simp add: pnlData_def free_shares_def no_shares_def server_pnl_def ex_defs js_defs Let_def
      CHF_RATES_def marketCurrency_def endsWith_def)

section \<open>Target evaluation\<close>

text \<open>
  C10. An open position with no live price and no stored current, exit or entry price (each
  missing or 0) has the resolved price 0, and \<open>alertType\<close> reports no alert, whatever its
  stop-loss is.
\<close>

theorem alertType_unpriced:
  "\<not> truthy (ld_price (liveDataOf p)) \<Longrightarrow> \<not> truthy (current_price p) \<Longrightarrow>
   \<not> truthy (exit_price p) \<Longrightarrow> \<not> truthy (entry_price p) \<Longrightarrow>
   pd_currentPrice (pnlData p) = 0 \<and> alertType p = None"
  by (simp add: alertType_def Let_def currentPrice_zero_iff)

theorem alertType_unpriced_witness:
  "status unpriced = ''open'' \<and> stop_loss unpriced = Num 90
   \<and> js_le (Num (pd_currentPrice (pnlData unpriced))) (stop_loss unpriced)
   \<and> alertType unpriced = None"
proof -
  have a: "\<not> truthy (ld_price (liveDataOf unpriced))" by (simp add: unpriced_def ex_defs)
  have b: "\<not> truthy (current_price unpriced)" by (simp add: unpriced_def ex_defs)
  have c: "\<not> truthy (exit_price unpriced)" by (simp add: unpriced_def ex_defs)
  have d: "\<not> truthy (entry_price unpriced)" by (simp add: unpriced_def ex_defs)
  have e: "status unpriced = ''open'' \<and> stop_loss unpriced = Num 90"
    by (simp add: unpriced_def ex_defs)
  show ?thesis using e alertType_unpriced [OF a b c d] by (simp add: js_le_def)
qed

text \<open>
  C3 (as the code has it). A position that is not open has no alert, and neither has an
  open one whose resolved price is 0. For every open position with a resolved price
  other than 0 the stop-loss is tested first (price at or below it), then the second
  target (price at or above it), then the first target; a level that is missing or 0 is
  not tested. With stop-loss 90, targets 110 and 120 and price 125 the result is \<open>tp2\<close>.
\<close>

theorem alertType_priority:
  "alertType p =
     (if status p \<noteq> ''open'' \<or> pd_currentPrice (pnlData p) = 0 then None
      else if \<exists>s. stop_loss p = Num s \<and> s \<noteq> 0 \<and> pd_currentPrice (pnlData p) \<le> s
        then Some ''sl''
      else if \<exists>t. take_profit_2 p = Num t \<and> t \<noteq> 0 \<and> pd_currentPrice (pnlData p) \<ge> t
        then Some ''tp2''
      else if \<exists>t. take_profit_1 p = Num t \<and> t \<noteq> 0 \<and> pd_currentPrice (pnlData p) \<ge> t
        then Some ''tp1''
      else None)
   \<and> (status p \<noteq> ''open'' \<longrightarrow> alertType p = None)
   \<and> (status p = ''open'' \<and> pd_currentPrice (pnlData p) = 125 \<and> stop_loss p = Num 90
        \<and> take_profit_1 p = Num 110 \<and> take_profit_2 p = Num 120 \<longrightarrow>
        alertType p = Some ''tp2'')"
  by (cases "stop_loss p"; cases "take_profit_2 p"; cases "take_profit_1 p")
     (simp_all add: alertType_def Let_def js_le_def js_ge_def)

theorem alertType_priority_witness:
  "status above_targets = ''open'' \<and> pd_currentPrice (pnlData above_targets) = 125
   \<and> stop_loss above_targets = Num 90 \<and> take_profit_1 above_targets = Num 110
   \<and> take_profit_2 above_targets = Num 120 \<and> alertType above_targets = Some ''tp2''"
proof -
  have a: "status above_targets = ''open'' \<and> pd_currentPrice (pnlData above_targets) = 125
     \<and> stop_loss above_targets = Num 90 \<and> take_profit_1 above_targets = Num 110
     \<and> take_profit_2 above_targets = Num 120"
    by (simp add: pnlData_def above_targets_def ex_defs js_defs Let_def)
  show ?thesis using a alertType_priority [of above_targets] by simp
qed

text \<open>An open position with stop-loss 90 and no price anywhere: the resolved price 0 is at
  or below the stop-loss, and the stop-loss is not reported.\<close>

theorem alertType_price_zero:
  "status unpriced = ''open''
   \<and> stop_loss unpriced = Num 90
   \<and> pd_currentPrice (pnlData unpriced) = 0
   \<and> pd_currentPrice (pnlData unpriced) \<le> 90
   \<and> alertType unpriced \<noteq> Some ''sl''
   \<and> alertType unpriced = None"
proof -
  have a: "status unpriced = ''open'' \<and> stop_loss unpriced = Num 90"
    by (simp add: unpriced_def ex_defs)
  have b: "pd_currentPrice (pnlData unpriced) = 0"
    by (simp add: currentPrice_zero_iff unpriced_def ex_defs)
  have c: "alertType unpriced = None"
    by (simp add: alertType_def Let_def b)
  show ?thesis using a b c by simp
qed

section \<open>Marker positions\<close>

text \<open>The marker is always within 2 and 98; a range of width 0 or less gives 50.\<close>

lemma markerPosition_clamped: "2 \<le> markerPosition p \<and> markerPosition p \<le> 98"
  by (simp add: markerPosition_def Let_def)

text \<open>When the second target is set, the three getters use the same upper end.\<close>

lemma marker_upper_end_set:
  "truthy (take_profit_2 p) \<Longrightarrow>
   or_num (take_profit_2 p) a = or_num (take_profit_2 p) b"
  by (cases "take_profit_2 p") (simp_all add: or_num_def)

text \<open>
  C5, at a position with entry price 100, first target 150, no stop-loss, no second target
  and price 120. The marker is placed on the range from 95 to 157.5 (second target
  defaulted to the first target times 1.05), at 40. The entry and first-target reference
  lines are placed on the range from 95 to 110 (second target defaulted to the entry
  price times 1.1): the entry line at 33.3, where the marker's range would put it at 8,
  and the first-target line at 366.7, beyond the end of the bar.
\<close>

theorem marker_ranges_differ:
  "markerPosition one_target = 40
   \<and> entryPosition one_target = 100 / 3
   \<and> tp1Position one_target = 1100 / 3
   \<and> tp1Position one_target > 100"
  by (simp add: markerPosition_def entryPosition_def tp1Position_def pnlData_def one_target_def
      ex_defs js_defs Let_def)

section \<open>Aggregate stats\<close>

lemma fold_statsStep:
  "fold statsStep ps (a, b, c) =
     (fold (\<lambda>p t. js_add t (valueOf p)) ps a,
      fold (\<lambda>p t. js_add t (investedOf p)) ps b,
      c + sum_list (map pnlOf ps))"
  by (induction ps arbitrary: a b c) (simp_all add: statsStep_def)

lemma fold_js_add_numbers:
  "\<forall>p\<in>set ps. toNumber (f p) \<noteq> None \<Longrightarrow>
   fold (\<lambda>p t. js_add t (f p)) ps (Num a) = Num (a + sum_list (map (\<lambda>p. the (toNumber (f p))) ps))"
proof (induction ps arbitrary: a)
  case Nil
  then show ?case by simp
next
  case (Cons p ps)
  then obtain x where x: "toNumber (f p) = Some x" by auto
  have "js_add (Num a) (f p) = Num (a + x)" by (simp add: js_add_def js_arith_def x)
  with Cons x show ?case by (simp add: add.assoc)
qed

text \<open>What one open position adds to the three totals.\<close>

lemma investedOf_eq:
  "investedOf p =
     (if truthy (invested p) then invested p
      else js_mul (entry_price p) (Num (or_num (quantity p) 1)))"
  by (simp add: investedOf_def js_or_def)

lemma valueOf_eq:
  "valueOf p = (if truthy (current_value p) then current_value p else investedOf p)"
  by (simp add: valueOf_def js_or_def)

lemma pnlOf_eq: "pnlOf p = (case pnl_value p of Num r \<Rightarrow> r | _ \<Rightarrow> 0)"
  by (cases "pnl_value p") (simp_all add: pnlOf_def or_num_def)

lemma investedOf_local:
  "\<not> truthy (invested p) \<Longrightarrow> entry_price p = Num e \<Longrightarrow>
   investedOf p = Num (e * or_num (quantity p) 1) \<and> investedOf p = Num (pd_invested (pnlData p))"
  by (simp add: investedOf_eq js_mul_def js_arith_def pnlData_def Let_def split_def or_num_def)

lemma stats_price_only_tick:
  "ld_pnl t = None \<Longrightarrow>
   investedOf (applyTick t p) = js_mul (entry_price p) (Num (or_num (quantity p) 1))
   \<and> valueOf (applyTick t p) = js_mul (entry_price p) (Num (or_num (quantity p) 1))
   \<and> pnlOf (applyTick t p) = 0"
  by (simp add: investedOf_eq valueOf_eq pnlOf_eq applyTick_def pnl_field_def)

lemma stats_server_tick:
  "ld_pnl t = Some lp \<Longrightarrow>
   investedOf (applyTick t p)
     = (if truthy (lp_invested lp) then lp_invested lp
        else js_mul (entry_price p) (Num (or_num (quantity p) 1)))
   \<and> valueOf (applyTick t p)
     = (if truthy (lp_current_value lp) then lp_current_value lp
        else investedOf (applyTick t p))
   \<and> pnlOf (applyTick t p) = or_num (lp_pnl_net lp) 0
   \<and> pnlOf (applyTick t p) = pd_value (pnlData (applyTick t p))"
  by (simp add: investedOf_eq valueOf_eq pnlOf_def applyTick_def pnl_field_def pnlData_def
      liveDataOf_def Let_def split_def)

text \<open>
  C6 (as the code has it). The recompute sums over exactly the positions whose status is
  \<open>open\<close>, in list order, starting from 0; positions with any other status contribute
  nothing. What it adds per position are the figures stored on the position by the last
  merge, with fallbacks, not the position's valuation: as invested the stored \<open>invested\<close>,
  or entry price times quantity (1 for a missing quantity) when that is missing or 0; as
  value the stored \<open>current_value\<close>, or that invested amount when it is missing or 0; as
  P&L the stored \<open>pnl_value\<close>, or 0 when it is missing. So a position whose last tick
  carried a price only counts with its invested amount as value and with P&L 0, and one
  whose tick carried the server's figures counts with those (its P&L is then the net P&L
  of its valuation). The realized P&L is kept as it was supplied, and the global P&L is
  the open P&L plus the realized P&L, unmodified when that is a number (a missing one
  counts as 0). Where the amounts are numbers the totals are their sums.
\<close>

theorem updateStats_fold:
  "st_value (updateStatsFromPositions ps st)
     = fold (\<lambda>p t. js_add t (valueOf p)) (filter (\<lambda>p. status p = ''open'') ps) (Num 0)
   \<and> st_invested (updateStatsFromPositions ps st)
     = fold (\<lambda>p t. js_add t (investedOf p)) (filter (\<lambda>p. status p = ''open'') ps) (Num 0)
   \<and> st_pnlOpen (updateStatsFromPositions ps st)
     = sum_list (map pnlOf (filter (\<lambda>p. status p = ''open'') ps))
   \<and> st_openPositions (updateStatsFromPositions ps st)
     = length (filter (\<lambda>p. status p = ''open'') ps)
   \<and> st_pnlRealized (updateStatsFromPositions ps st) = st_pnlRealized st
   \<and> st_pnlGlobal (updateStatsFromPositions ps st)
     = st_pnlOpen (updateStatsFromPositions ps st) + or_num (st_pnlRealized st) 0
   \<and> (\<forall>r. st_pnlRealized st = Num r \<longrightarrow>
         st_pnlGlobal (updateStatsFromPositions ps st)
           = sum_list (map pnlOf (filter (\<lambda>p. status p = ''open'') ps)) + r)
   \<and> ((\<forall>p\<in>set ps. status p = ''open'' \<longrightarrow>
          toNumber (valueOf p) \<noteq> None \<and> toNumber (investedOf p) \<noteq> None) \<longrightarrow>
        st_value (updateStatsFromPositions ps st)
          = Num (sum_list (map (\<lambda>p. the (toNumber (valueOf p)))
                             (filter (\<lambda>p. status p = ''open'') ps)))
        \<and> st_invested (updateStatsFromPositions ps st)
          = Num (sum_list (map (\<lambda>p. the (toNumber (investedOf p)))
                             (filter (\<lambda>p. status p = ''open'') ps))))
   \<and> investedOf p =
       (if truthy (invested p) then invested p
        else js_mul (entry_price p) (Num (or_num (quantity p) 1)))
   \<and> valueOf p = (if truthy (current_value p) then current_value p else investedOf p)
   \<and> pnlOf p = (case pnl_value p of Num r \<Rightarrow> r | _ \<Rightarrow> 0)
   \<and> (\<not> truthy (invested p) \<and> entry_price p = Num e \<longrightarrow>
        investedOf p = Num (e * or_num (quantity p) 1)
        \<and> investedOf p = Num (pd_invested (pnlData p)))
   \<and> (ld_pnl t = None \<longrightarrow>
        investedOf (applyTick t p) = js_mul (entry_price p) (Num (or_num (quantity p) 1))
        \<and> valueOf (applyTick t p) = js_mul (entry_price p) (Num (or_num (quantity p) 1))
        \<and> pnlOf (applyTick t p) = 0)
   \<and> (ld_pnl t = Some lp \<longrightarrow>
        investedOf (applyTick t p)
          = (if truthy (lp_invested lp) then lp_invested lp
             else js_mul (entry_price p) (Num (or_num (quantity p) 1)))
        \<and> valueOf (applyTick t p)
          = (if truthy (lp_current_value lp) then lp_current_value lp
             else investedOf (applyTick t p))
        \<and> pnlOf (applyTick t p) = or_num (lp_pnl_net lp) 0
        \<and> pnlOf (applyTick t p) = pd_value (pnlData (applyTick t p)))
   \<and> updateStatsFromPositions (filter (\<lambda>p. status p = ''open'') ps) st
     = updateStatsFromPositions ps st"
proof -
  let ?os = "filter (\<lambda>p. status p = ''open'') ps"
  let ?u = "updateStatsFromPositions ps st"
  have u: "?u =
      st \<lparr> st_value := fold (\<lambda>p t. js_add t (valueOf p)) ?os (Num 0),
           st_invested := fold (\<lambda>p t. js_add t (investedOf p)) ?os (Num 0),
           st_openPositions := length ?os,
           st_pnlOpen := sum_list (map pnlOf ?os),
           st_pnlGlobal := sum_list (map pnlOf ?os) + or_num (st_pnlRealized st) 0 \<rparr>"
    by (simp add: updateStatsFromPositions_def Let_def fold_statsStep)
  have f1: "st_value ?u = fold (\<lambda>p t. js_add t (valueOf p)) ?os (Num 0)"
    by (simp add: u)
  have f2: "st_invested ?u = fold (\<lambda>p t. js_add t (investedOf p)) ?os (Num 0)"
    by (simp add: u)
  have f3: "st_pnlOpen ?u = sum_list (map pnlOf ?os)"
    by (simp add: u)
  have f4: "st_openPositions ?u = length ?os"
    by (simp add: u)
  have f5: "st_pnlRealized ?u = st_pnlRealized st"
    by (simp add: u)
  have f6: "st_pnlGlobal ?u = st_pnlOpen ?u + or_num (st_pnlRealized st) 0"
    by (simp add: u)
  have f7: "\<forall>r. st_pnlRealized st = Num r \<longrightarrow> st_pnlGlobal ?u = sum_list (map pnlOf ?os) + r"
    by (simp add: u or_num_def)
  have f8: "(\<forall>p\<in>set ps. status p = ''open'' \<longrightarrow>
              toNumber (valueOf p) \<noteq> None \<and> toNumber (investedOf p) \<noteq> None) \<longrightarrow>
      st_value ?u = Num (sum_list (map (\<lambda>p. the (toNumber (valueOf p))) ?os))
      \<and> st_invested ?u = Num (sum_list (map (\<lambda>p. the (toNumber (investedOf p))) ?os))"
    using fold_js_add_numbers [of ?os valueOf 0] fold_js_add_numbers [of ?os investedOf 0]
    by (simp add: f1 f2)
  have f9: "updateStatsFromPositions ?os st = ?u"
    by (simp add: updateStatsFromPositions_def)
  have g1: "\<not> truthy (invested p) \<and> entry_price p = Num e \<longrightarrow>
        investedOf p = Num (e * or_num (quantity p) 1)
        \<and> investedOf p = Num (pd_invested (pnlData p))"
    using investedOf_local [of p e] by blast
  have g2: "ld_pnl t = None \<longrightarrow>
        investedOf (applyTick t p) = js_mul (entry_price p) (Num (or_num (quantity p) 1))
        \<and> valueOf (applyTick t p) = js_mul (entry_price p) (Num (or_num (quantity p) 1))
        \<and> pnlOf (applyTick t p) = 0"
    using stats_price_only_tick [of t p] by blast
  have g3: "ld_pnl t = Some lp \<longrightarrow>
        investedOf (applyTick t p)
          = (if truthy (lp_invested lp) then lp_invested lp
             else js_mul (entry_price p) (Num (or_num (quantity p) 1)))
        \<and> valueOf (applyTick t p)
          = (if truthy (lp_current_value lp) then lp_current_value lp
             else investedOf (applyTick t p))
        \<and> pnlOf (applyTick t p) = or_num (lp_pnl_net lp) 0
        \<and> pnlOf (applyTick t p) = pd_value (pnlData (applyTick t p))"
    using stats_server_tick [of t lp p] by blast
  from f1 f2 f3 f4 f5 f6 f7 f8 investedOf_eq [of p] valueOf_eq [of p] pnlOf_eq [of p]
    g1 g2 g3 f9
  show ?thesis by (intro conjI) assumption+
qed

theorem updateStats_fold_witness:
  "filter (\<lambda>p. status p = ''open'') (mergePrices first_batch portfolio)
     = [applyTick first_tick (ledger ''AAPL'' ''open'' 100 10 5 0),
        ledger ''NESN.SW'' ''open'' 50 2 0 0]
   \<and> toNumber (valueOf (applyTick first_tick (ledger ''AAPL'' ''open'' 100 10 5 0))) = Some 50
   \<and> toNumber (investedOf (applyTick first_tick (ledger ''AAPL'' ''open'' 100 10 5 0))) = Some 1000
   \<and> toNumber (valueOf (ledger ''NESN.SW'' ''open'' 50 2 0 0)) = Some 100
   \<and> toNumber (investedOf (ledger ''NESN.SW'' ''open'' 50 2 0 0)) = Some 100
   \<and> st_pnlRealized start_stats = Num 12
   \<and> ld_pnl first_tick = Some server_pnl
   \<and> ld_pnl (price_tick 110) = None
   \<and> valueOf (applyTick (price_tick 110) (ledger ''NESN.SW'' ''open'' 50 2 0 0)) = Num 100
   \<and> pnlOf (applyTick (price_tick 110) (ledger ''NESN.SW'' ''open'' 50 2 0 0)) = 0
   \<and> st_invested (updateStatsFromPositions (mergePrices first_batch portfolio) start_stats) = Num 1100
   \<and> st_value (updateStatsFromPositions (mergePrices first_batch portfolio) start_stats) = Num 150
   \<and> st_pnlOpen (updateStatsFromPositions (mergePrices first_batch portfolio) start_stats) = 50
   \<and> st_pnlGlobal (updateStatsFromPositions (mergePrices first_batch portfolio) start_stats) = 62
   \<and> st_openPositions (updateStatsFromPositions (mergePrices first_batch portfolio) start_stats) = 2"
proof -
  let ?ps = "mergePrices first_batch portfolio"
  have ps: "?ps = [applyTick first_tick (ledger ''AAPL'' ''open'' 100 10 5 0),
      (ledger ''AAPL'' ''closed'' 80 5 0 0) \<lparr> pnl_value := Num 40 \<rparr>,
      ledger ''NESN.SW'' ''open'' 50 2 0 0]"
    by (simp add: mergePrices_def mergeOne_def readPrice_def object_prototype_def portfolio_def
        first_batch_def ledger_def)
  have r: "st_pnlRealized start_stats = Num 12" by (simp add: start_stats_def)
  have e: "filter (\<lambda>p. status p = ''open'') ?ps =
      [applyTick first_tick (ledger ''AAPL'' ''open'' 100 10 5 0), ledger ''NESN.SW'' ''open'' 50 2 0 0]"
    by (simp add: ps ex_defs)
  have v: "valueOf (applyTick first_tick (ledger ''AAPL'' ''open'' 100 10 5 0)) = Num 50
     \<and> investedOf (applyTick first_tick (ledger ''AAPL'' ''open'' 100 10 5 0)) = Num 1000
     \<and> pnlOf (applyTick first_tick (ledger ''AAPL'' ''open'' 100 10 5 0)) = 50
     \<and> valueOf (ledger ''NESN.SW'' ''open'' 50 2 0 0) = Num 100
     \<and> investedOf (ledger ''NESN.SW'' ''open'' 50 2 0 0) = Num 100
     \<and> pnlOf (ledger ''NESN.SW'' ''open'' 50 2 0 0) = 0"
    by (simp add: valueOf_def investedOf_def pnlOf_def first_tick_def server_pnl_def ex_defs js_defs)
  have h: "\<forall>p\<in>set ?ps. status p = ''open'' \<longrightarrow>
       toNumber (valueOf p) \<noteq> None \<and> toNumber (investedOf p) \<noteq> None"
    by (simp add: ps v) (simp add: valueOf_def investedOf_def ex_defs js_defs)
  have t1: "ld_pnl first_tick = Some server_pnl" by (simp add: first_tick_def)
  have t2: "ld_pnl (price_tick 110) = None" by (simp add: price_tick_def empty_live_def)
  have n: "\<not> truthy (invested (ledger ''NESN.SW'' ''open'' 50 2 0 0))
      \<and> entry_price (ledger ''NESN.SW'' ''open'' 50 2 0 0) = Num 50
      \<and> quantity (ledger ''NESN.SW'' ''open'' 50 2 0 0) = Num 2"
    by (simp add: ledger_def)
  note t = updateStats_fold [where ps = ?ps and st = start_stats
      and p = "ledger ''NESN.SW'' ''open'' 50 2 0 0" and e = 50
      and t = "price_tick 110" and lp = server_pnl]
  have w: "valueOf (applyTick (price_tick 110) (ledger ''NESN.SW'' ''open'' 50 2 0 0)) = Num 100
      \<and> pnlOf (applyTick (price_tick 110) (ledger ''NESN.SW'' ''open'' 50 2 0 0)) = 0"
    using t t2 n by (simp add: js_mul_def js_arith_def or_num_def)
  let ?u = "updateStatsFromPositions ?ps start_stats"
  have a1: "st_value ?u = Num 150"
    using t [THEN conjunct1] by (simp add: e v js_add_def js_arith_def)
  have a2: "st_invested ?u = Num 1100"
    using t [THEN conjunct2, THEN conjunct1] by (simp add: e v js_add_def js_arith_def)
  have a3: "st_pnlOpen ?u = 50"
    using t [THEN conjunct2, THEN conjunct2, THEN conjunct1] by (simp add: e v)
  have a4: "st_openPositions ?u = 2"
    using t [THEN conjunct2, THEN conjunct2, THEN conjunct2, THEN conjunct1] by (simp add: e)
  have a6: "st_pnlGlobal ?u = 62"
    using t [THEN conjunct2, THEN conjunct2, THEN conjunct2, THEN conjunct2, THEN conjunct2,
        THEN conjunct1] a3 r
    by (simp add: or_num_def)
  show ?thesis
    using r t1 t2 w a1 a2 a3 a4 a6 by (simp add: e v)
qed

text \<open>A position whose tick carried a price only (the reference scenario, valued at
  invested 1000, current value 1100, net P&L 95) is counted with value 1000 and P&L 0; and
  a holding whose supplied current value is 0 is counted with its invested amount, 1000.\<close>

theorem updateStats_not_valuation:
  "status (scenario ''NESN.SW'') = ''open''
   \<and> pd_invested (pnlData (scenario ''NESN.SW'')) = 1000
   \<and> pd_currentValue (pnlData (scenario ''NESN.SW'')) = 1100
   \<and> pd_value (pnlData (scenario ''NESN.SW'')) = 95
   \<and> st_invested (updateStatsFromPositions [scenario ''NESN.SW''] start_stats) = Num 1000
   \<and> st_value (updateStatsFromPositions [scenario ''NESN.SW''] start_stats) = Num 1000
   \<and> st_pnlOpen (updateStatsFromPositions [scenario ''NESN.SW''] start_stats) = 0
   \<and> current_value worthless = Num 0
   \<and> st_value (updateStatsFromPositions [worthless] start_stats) = Num 1000"
proof -
  have a: "status (scenario ''NESN.SW'') = ''open'' \<and> status worthless = ''open''
      \<and> current_value worthless = Num 0"
    by (simp add: scenario_def worthless_def worthless_pnl_def ex_defs)
  have b: "pd_invested (pnlData (scenario ''NESN.SW'')) = 1000
      \<and> pd_currentValue (pnlData (scenario ''NESN.SW'')) = 1100
      \<and> pd_value (pnlData (scenario ''NESN.SW'')) = 95"
    by (simp add: pnlData_def scenario_def ex_defs js_defs Let_def CHF_RATES_def
        marketCurrency_def endsWith_def)
  have c: "investedOf (scenario ''NESN.SW'') = Num 1000 \<and> valueOf (scenario ''NESN.SW'') = Num 1000
      \<and> pnlOf (scenario ''NESN.SW'') = 0"
    by (simp add: investedOf_def valueOf_def pnlOf_def scenario_def ex_defs js_defs)
  have d: "investedOf worthless = Num 1000 \<and> valueOf worthless = Num 1000"
    by (simp add: investedOf_def valueOf_def worthless_def worthless_pnl_def ex_defs js_defs)
  have e: "st_invested (updateStatsFromPositions [scenario ''NESN.SW''] start_stats) = Num 1000
      \<and> st_value (updateStatsFromPositions [scenario ''NESN.SW''] start_stats) = Num 1000
      \<and> st_pnlOpen (updateStatsFromPositions [scenario ''NESN.SW''] start_stats) = 0"
    using a by (simp add: updateStatsFromPositions_def statsStep_def c js_add_def js_arith_def)
  have f: "st_value (updateStatsFromPositions [worthless] start_stats) = Num 1000"
    using a by (simp add: updateStatsFromPositions_def statsStep_def d js_add_def js_arith_def)
  show ?thesis using a b e f by simp
qed


section \<open>Tick merge\<close>

text \<open>What the object literal writes: the tick itself, its price, and the five figures of
  its \<open>pnl\<close> object, each \<open>undefined\<close> when the tick has no such object. Nothing else of
  the position changes, and a second tick overwrites all that the first one wrote.\<close>

lemma applyTick_twice: "applyTick t (applyTick t' p) = applyTick t p"
  by (simp add: applyTick_def)

lemma applyTick_ledger:
  "ident (applyTick t p) = ident p \<and> ticker (applyTick t p) = ticker p
   \<and> status (applyTick t p) = status p \<and> entry_price (applyTick t p) = entry_price p
   \<and> quantity (applyTick t p) = quantity p \<and> buy_commission (applyTick t p) = buy_commission p
   \<and> sell_commission (applyTick t p) = sell_commission p \<and> exit_price (applyTick t p) = exit_price p
   \<and> stop_loss (applyTick t p) = stop_loss p \<and> take_profit_1 (applyTick t p) = take_profit_1 p
   \<and> take_profit_2 (applyTick t p) = take_profit_2 p"
  by (simp add: applyTick_def)

lemma applyTick_live:
  "live_data (applyTick t p) = Some t \<and> current_price (applyTick t p) = ld_price t
   \<and> (ld_pnl t = None \<longrightarrow>
        pnl_value (applyTick t p) = Undefined \<and> pnl_percent (applyTick t p) = Undefined
        \<and> pnl_gross (applyTick t p) = Undefined \<and> current_value (applyTick t p) = Undefined
        \<and> invested (applyTick t p) = Undefined)
   \<and> (ld_pnl t = Some lp \<longrightarrow>
        pnl_value (applyTick t p) = lp_pnl_net lp
        \<and> pnl_percent (applyTick t p) = lp_pnl_percent lp
        \<and> pnl_gross (applyTick t p) = lp_pnl_gross lp
        \<and> current_value (applyTick t p) = lp_current_value lp
        \<and> invested (applyTick t p) = lp_invested lp)"
  by (simp add: applyTick_def pnl_field_def)

text \<open>The four cases of the merge of one position. In the last one the batch has no tick
  for the position, and the position is rewritten all the same.\<close>

lemma mergeOne_cases:
  "(status p \<noteq> ''open'' \<longrightarrow> mergeOne prices p = p)
   \<and> (status p = ''open'' \<and> prices (ticker p) = Some t \<longrightarrow> mergeOne prices p = applyTick t p)
   \<and> (status p = ''open'' \<and> prices (ticker p) = None \<and> ticker p \<notin> set object_prototype \<longrightarrow>
        mergeOne prices p = p)
   \<and> (status p = ''open'' \<and> prices (ticker p) = None \<and> ticker p \<in> set object_prototype \<longrightarrow>
        mergeOne prices p = applyTick empty_live p)"
  by (simp add: mergeOne_def readPrice_def)

lemma mergeOne_key: "status (mergeOne b p) = status p \<and> ticker (mergeOne b p) = ticker p"
  by (simp add: mergeOne_def applyTick_def split: option.splits)

text \<open>For a position whose ticker is not the name of a member of \<open>Object.prototype\<close>, any
  sequence of batches, and any sequence of stream frames (those that do not parse or lack
  \<open>success\<close> deliver nothing), leaves it untouched or carrying exactly the last tick that
  arrived for its ticker.\<close>

lemma latest_Cons:
  "ticker p \<notin> set object_prototype \<Longrightarrow> latest bs (mergeOne b p) = latest (b # bs) p"
  by (simp add: latest_def mergeOne_def readPrice_def applyTick_twice applyTick_ledger
      split: option.splits)

lemma fold_mergePrices:
  "\<forall>p\<in>set ps. ticker p \<notin> set object_prototype \<Longrightarrow>
   fold mergePrices bs ps = map (latest bs) ps"
proof (induction bs arbitrary: ps)
  case Nil
  show ?case by (simp add: latest_def map_idI)
next
  case (Cons b bs)
  have k: "\<forall>p\<in>set (mergePrices b ps). ticker p \<notin> set object_prototype"
    using Cons.prems by (simp add: mergePrices_def mergeOne_key)
  have "fold mergePrices (b # bs) ps = fold mergePrices bs (mergePrices b ps)" by simp
  also have "\<dots> = map (latest bs) (mergePrices b ps)" using k by (rule Cons.IH)
  also have "\<dots> = map (latest (b # bs)) ps"
    using Cons.prems by (simp add: mergePrices_def latest_Cons)
  finally show ?case .
qed

lemma onPriceMessage_prices:
  "onPriceMessage f pg = (case frame_prices f of Some prices \<Rightarrow> applyPrices prices pg | None \<Rightarrow> pg)"
  by (simp add: onPriceMessage_def frame_prices_def split: frame.splits)

lemma positions_onPriceMessage:
  "positions (onPriceMessage f pg) =
     (case frame_prices f of Some prices \<Rightarrow> mergePrices prices (positions pg) | None \<Rightarrow> positions pg)"
  by (simp add: onPriceMessage_prices applyPrices_def Let_def split: option.splits)

lemma positions_fold_onPriceMessage:
  "positions (fold onPriceMessage fs pg) = fold mergePrices (List.map_filter frame_prices fs) (positions pg)"
proof (induction fs arbitrary: pg)
  case Nil
  show ?case by (simp add: List.map_filter_simps)
next
  case (Cons f fs)
  show ?case
    by (cases "frame_prices f") (simp_all add: Cons.IH positions_onPriceMessage List.map_filter_simps)
qed

lemma stream_latest:
  "\<forall>p\<in>set (positions pg). ticker p \<notin> set object_prototype \<Longrightarrow>
   positions (fold onPriceMessage fs pg)
     = map (latest (List.map_filter frame_prices fs)) (positions pg)"
  by (simp add: positions_fold_onPriceMessage fold_mergePrices)

lemma stream_latest_example:
  "positions (fold onPriceMessage stream start_page)
     = [applyTick (price_tick 110) (ledger ''AAPL'' ''open'' 100 10 5 0),
        (ledger ''AAPL'' ''closed'' 80 5 0 0) \<lparr> pnl_value := Num 40 \<rparr>,
        ledger ''NESN.SW'' ''open'' 50 2 0 0]"
proof -
  have m: "List.map_filter frame_prices stream = [first_batch, second_batch]"
    by (simp add: stream_def frame_prices_def List.map_filter_simps)
  have l: "map (latest [first_batch, second_batch]) portfolio
       = [applyTick (price_tick 110) (ledger ''AAPL'' ''open'' 100 10 5 0),
          (ledger ''AAPL'' ''closed'' 80 5 0 0) \<lparr> pnl_value := Num 40 \<rparr>,
          ledger ''NESN.SW'' ''open'' 50 2 0 0]"
    by (simp add: portfolio_def latest_def first_batch_def second_batch_def ledger_def)
  have k: "\<forall>p\<in>set (positions start_page). ticker p \<notin> set object_prototype"
    by (simp add: start_page_def portfolio_def ledger_def object_prototype_def)
  show ?thesis using stream_latest [OF k, of stream] by (simp add: m l start_page_def)
qed

text \<open>
  C7, at an open position with ticker \<open>constructor\<close>, a stored current price of 120 and a
  stored net P&L of 195, and a batch that has no entry at all. The read
  \<open>result.prices[p.ticker]\<close> finds the inherited \<open>Object.prototype.constructor\<close>, the test
  passes, and the position is rewritten from it: the current price and the five P&L
  figures become \<open>undefined\<close>. A position whose ticker has no tick in the batch is not
  left unchanged.
\<close>

theorem merge_rewrites_untouched:
  "status proto_position = ''open''
   \<and> empty_batch (ticker proto_position) = None
   \<and> current_price proto_position = Num 120
   \<and> pnl_value proto_position = Num 195
   \<and> mergeOne empty_batch proto_position \<noteq> proto_position
   \<and> current_price (mergeOne empty_batch proto_position) = Undefined
   \<and> pnl_value (mergeOne empty_batch proto_position) = Undefined
   \<and> live_data (mergeOne empty_batch proto_position) = Some empty_live"
proof -
  have m: "mergeOne empty_batch proto_position = applyTick empty_live proto_position"
    by (simp add: mergeOne_def readPrice_def empty_batch_def proto_position_def ledger_def
        object_prototype_def)
  have c: "current_price (applyTick empty_live proto_position) = Undefined"
    by (simp add: applyTick_def empty_live_def)
  have d: "current_price proto_position = Num 120"
    by (simp add: proto_position_def)
  have n: "applyTick empty_live proto_position \<noteq> proto_position"
    using c d by (metis jsval.distinct(5))
  show ?thesis
    using n by (simp add: m c) (simp add: proto_position_def ledger_def empty_batch_def
        applyTick_def pnl_field_def empty_live_def)
qed

section \<open>Reconnect backoff\<close>

lemma reconnect_delay_mono:
  "0 \<le> b \<Longrightarrow> i \<le> j \<Longrightarrow> reconnect_delay b i \<le> reconnect_delay b j"
proof -
  assume b: "0 \<le> b" and ij: "i \<le> j"
  have "b * of_nat i \<le> b * of_nat j" using b ij by (simp add: mult_left_mono)
  then show ?thesis by (simp add: reconnect_delay_def min_le_iff_disj)
qed

lemma reconnect_delay_cap: "reconnect_delay b n \<le> 30000"
  by (simp add: reconnect_delay_def)

lemma step_error:
  "eventSource c \<noteq> None \<Longrightarrow> \<not> isManualClose c \<Longrightarrow> below_max (retries c) (maxRetries c) \<Longrightarrow>
   step TransportError c =
     c \<lparr> retries := Suc (retries c),
         printed := printed c @ [(reconnect_delay (reconnectDelay c) (Suc (retries c)), Suc (retries c))],
         reconnectTimer := Some (nextTimer c),
         timers := timers c @ [(nextTimer c, reconnect_delay (reconnectDelay c) (Suc (retries c)))],
         nextTimer := Suc (nextTimer c) \<rparr>"
  by (cases "eventSource c") (simp_all add: step_def onerror_def Let_def)

lemma step_message: "eventSource c \<noteq> None \<Longrightarrow> retries (step (Message ok) c) = 0"
  by (cases "eventSource c") (simp_all add: step_def onmessage_def Let_def)

lemma step_opened: "eventSource c \<noteq> None \<Longrightarrow> retries (step Opened c) = 0"
  by (cases "eventSource c") (simp_all add: step_def onopen_def)

lemma step_base: "reconnectDelay (step ev c) = reconnectDelay c"
  by (cases ev) (simp_all add: step_def onerror_def onmessage_def onopen_def close_def connect_def
      createEventSource_def Let_def split: option.splits)

lemma step_printed:
  "\<forall>e\<in>set (printed c). fst e = reconnect_delay (reconnectDelay c) (snd e) \<Longrightarrow>
   \<forall>e\<in>set (printed (step ev c)). fst e = reconnect_delay (reconnectDelay c) (snd e)"
  by (cases ev) (auto simp: step_def onerror_def onmessage_def onopen_def close_def connect_def
      createEventSource_def Let_def split: option.splits)

lemma run_printed:
  "\<forall>e\<in>set (printed c). fst e = reconnect_delay (reconnectDelay c) (snd e) \<Longrightarrow>
   \<forall>e\<in>set (printed (run evs c)). fst e = reconnect_delay (reconnectDelay c) (snd e)"
proof (induction evs arbitrary: c)
  case Nil
  then show ?case by (simp add: run_def)
next
  case (Cons ev evs)
  have "\<forall>e\<in>set (printed (step ev c)). fst e = reconnect_delay (reconnectDelay (step ev c)) (snd e)"
    using step_printed [OF Cons.prems] by (simp add: step_base)
  from Cons.IH [OF this] show ?case by (simp add: run_def step_base)
qed

lemma run_errors:
  "eventSource c \<noteq> None \<Longrightarrow> \<not> isManualClose c \<Longrightarrow>
   \<forall>k<n. below_max (retries c + k) (maxRetries c) \<Longrightarrow>
   printed (run (replicate n TransportError) c) =
     printed c @ map (\<lambda>k. (reconnect_delay (reconnectDelay c) (retries c + k), retries c + k)) [1..<Suc n]
   \<and> retries (run (replicate n TransportError) c) = retries c + n"
proof (induction n arbitrary: c)
  case 0
  then show ?case by (simp add: run_def)
next
  case (Suc n)
  let ?c = "step TransportError c"
  have b0: "below_max (retries c) (maxRetries c)" using Suc.prems(3) by force
  note s = step_error [OF Suc.prems(1) Suc.prems(2) b0]
  have p1: "eventSource ?c \<noteq> None" using Suc.prems(1) by (simp add: s)
  have p2: "\<not> isManualClose ?c" using Suc.prems(2) by (simp add: s)
  have p3: "\<forall>k<n. below_max (retries ?c + k) (maxRetries ?c)"
    using Suc.prems(3) by (auto simp: s)
  have r: "run (replicate (Suc n) TransportError) c = run (replicate n TransportError) ?c"
    by (simp add: run_def)
  have u: "[1..<Suc (Suc n)] = 1 # map Suc [1..<Suc n]"
    by (simp add: map_Suc_upt upt_conv_Cons del: upt_Suc)
  have f: "reconnectDelay ?c = reconnectDelay c \<and> retries ?c = Suc (retries c)
      \<and> printed ?c = printed c @ [(reconnect_delay (reconnectDelay c) (Suc (retries c)), Suc (retries c))]"
    by (simp add: s)
  have ih: "printed (run (replicate n TransportError) ?c) =
     printed ?c @ map (\<lambda>k. (reconnect_delay (reconnectDelay ?c) (retries ?c + k), retries ?c + k)) [1..<Suc n]
     \<and> retries (run (replicate n TransportError) ?c) = retries ?c + n"
    by (rule Suc.IH [OF p1 p2 p3])
  show ?case
    unfolding r u using ih by (simp add: f comp_def del: upt_Suc)
qed

lemma sorted_delays:
  "0 \<le> b \<Longrightarrow> sorted (map (\<lambda>k. reconnect_delay b (r + k)) [m..<n])"
proof -
  assume b: "0 \<le> b"
  have "sorted_wrt (\<lambda>x y. reconnect_delay b (r + x) \<le> reconnect_delay b (r + y)) [m..<n]"
    by (rule sorted_wrt_mono_rel [where P = "(\<le>)"]) (simp_all add: reconnect_delay_mono b)
  then show ?thesis by (simp add: sorted_map)
qed

text \<open>
  C2 (as the code has it). A transport error on an open channel that was not closed by
  hand and is below its retry limit increments the counter and schedules the reconnect
  after \<open>min(reconnectDelay * retries, 30000)\<close>, with the incremented counter. Every delay
  ever scheduled, in any sequence of events, has this form. Over \<open>n\<close> consecutive errors
  the delays are those of the counters \<open>retries + 1 .. retries + n\<close>, non-decreasing when
  the base delay is not negative, and never above 30000. The counter returns to zero on
  every inbound frame, whether or not its body decodes, and on \<open>open\<close>.
\<close>

theorem backoff_schedule:
  "(eventSource c \<noteq> None \<and> \<not> isManualClose c \<and> below_max (retries c) (maxRetries c) \<longrightarrow>
      retries (step TransportError c) = Suc (retries c)
      \<and> timers (step TransportError c)
          = timers c @ [(nextTimer c, min (reconnectDelay c * of_nat (Suc (retries c))) 30000)])
   \<and> ((\<forall>e\<in>set (printed c). fst e = min (reconnectDelay c * of_nat (snd e)) 30000) \<longrightarrow>
        (\<forall>e\<in>set (printed (run evs c)). fst e = min (reconnectDelay c * of_nat (snd e)) 30000))
   \<and> (eventSource c \<noteq> None \<and> \<not> isManualClose c
        \<and> (\<forall>k<n. below_max (retries c + k) (maxRetries c)) \<longrightarrow>
        map fst (printed (run (replicate n TransportError) c))
          = map fst (printed c)
            @ map (\<lambda>k. min (reconnectDelay c * of_nat (retries c + k)) 30000) [1..<Suc n]
        \<and> retries (run (replicate n TransportError) c) = retries c + n)
   \<and> (0 \<le> reconnectDelay c \<longrightarrow>
        sorted (map (\<lambda>k. min (reconnectDelay c * of_nat (retries c + k)) 30000) [1..<Suc n]))
   \<and> (eventSource c \<noteq> None \<longrightarrow>
        retries (step (Message ok) c) = 0 \<and> retries (step Opened c) = 0)"
proof -
  have a: "eventSource c \<noteq> None \<and> \<not> isManualClose c \<and> below_max (retries c) (maxRetries c) \<longrightarrow>
      retries (step TransportError c) = Suc (retries c)
      \<and> timers (step TransportError c)
          = timers c @ [(nextTimer c, min (reconnectDelay c * of_nat (Suc (retries c))) 30000)]"
    using step_error [of c] by (auto simp: reconnect_delay_def)
  have b: "(\<forall>e\<in>set (printed c). fst e = min (reconnectDelay c * of_nat (snd e)) 30000) \<longrightarrow>
        (\<forall>e\<in>set (printed (run evs c)). fst e = min (reconnectDelay c * of_nat (snd e)) 30000)"
    using run_printed [of c evs] by (simp add: reconnect_delay_def)
  have d: "eventSource c \<noteq> None \<and> \<not> isManualClose c
        \<and> (\<forall>k<n. below_max (retries c + k) (maxRetries c)) \<longrightarrow>
        map fst (printed (run (replicate n TransportError) c))
          = map fst (printed c)
            @ map (\<lambda>k. min (reconnectDelay c * of_nat (retries c + k)) 30000) [1..<Suc n]
        \<and> retries (run (replicate n TransportError) c) = retries c + n"
    using run_errors [of c n] by (auto simp: reconnect_delay_def comp_def simp del: upt_Suc)
  have e: "0 \<le> reconnectDelay c \<longrightarrow>
        sorted (map (\<lambda>k. min (reconnectDelay c * of_nat (retries c + k)) 30000) [1..<Suc n])"
    using sorted_delays [of "reconnectDelay c" "retries c" 1 "Suc n"]
    by (simp add: reconnect_delay_def del: upt_Suc)
  have f: "eventSource c \<noteq> None \<longrightarrow>
        retries (step (Message ok) c) = 0 \<and> retries (step Opened c) = 0"
    using step_message [of c ok] step_opened [of c] by blast
  from a b d e f show ?thesis by (intro conjI) assumption+
qed

theorem backoff_schedule_witness:
  "eventSource fresh_client \<noteq> None \<and> \<not> isManualClose fresh_client
   \<and> below_max (retries fresh_client + 0) (maxRetries fresh_client)
   \<and> below_max (retries fresh_client + 1) (maxRetries fresh_client)
   \<and> below_max (retries fresh_client + 2) (maxRetries fresh_client)
   \<and> 0 \<le> reconnectDelay fresh_client
   \<and> map fst (printed (run (replicate 3 TransportError) fresh_client)) = [5000, 10000, 15000]
   \<and> sorted [5000, 10000, 15000 :: rat]
   \<and> retries (run (replicate 3 TransportError) fresh_client) = 3
   \<and> retries (step (Message False) fresh_client) = 0"
proof -
  have c: "eventSource fresh_client = Some 1 \<and> \<not> isManualClose fresh_client
      \<and> maxRetries fresh_client = None \<and> reconnectDelay fresh_client = 5000
      \<and> retries fresh_client = 0 \<and> printed fresh_client = []"
    by (simp add: fresh_client_def connect_def createEventSource_def new_client_def or_num_def)
  have h: "\<forall>k<3. below_max (retries fresh_client + k) (maxRetries fresh_client)"
    by (simp add: c below_max_def)
  have u: "[Suc 0..<4] = [1, 2, 3]" by code_simp
  show ?thesis
    using h backoff_schedule [of fresh_client "[]" 3 False]
    by (simp add: c u del: upt_Suc)
qed

text \<open>After three errors a frame whose body does not decode (nothing is delivered to the
  callback) resets the counter, and the next error schedules the base delay again.\<close>

theorem backoff_reset_undecoded:
  "retries three_errors = 3
   \<and> retries (step (Message False) three_errors) = 0
   \<and> delivered (step (Message False) three_errors) = 0
   \<and> printed (step TransportError (step (Message False) three_errors))
       = [(5000, 1), (10000, 2), (15000, 3), (5000, 1)]"
  by (simp add: three_errors_def fresh_client_def sse_defs or_num_def Let_def)

section \<open>Closing the stream client\<close>

text \<open>What holds of \<open>close()\<close>: a second call changes nothing, the timer the client
  tracks is cancelled, and when the tracked timer is the only pending one nothing but
  \<open>connect()\<close> opens a connection again.\<close>

lemma close_idempotent: "close (close c) = close c"
  by (simp add: close_def Let_def split: option.splits)

lemma close_cancels_tracked: "reconnectTimer c = Some i \<Longrightarrow> i \<notin> fst ` set (timers (close c))"
  by (auto simp: close_def clearTimeout_def Let_def split: option.splits)

lemma close_state: "isManualClose (close c) \<and> eventSource (close c) = None"
  by (simp add: close_def Let_def split: option.splits)

lemma step_stays_closed:
  "eventSource c = None \<Longrightarrow> timers c = [] \<Longrightarrow> ev \<noteq> Connect \<Longrightarrow>
   eventSource (step ev c) = None \<and> timers (step ev c) = []"
  by (cases ev) (simp_all add: step_def close_def clearTimeout_def Let_def split: option.splits)

lemma run_stays_closed:
  "eventSource c = None \<Longrightarrow> timers c = [] \<Longrightarrow> Connect \<notin> set evs \<Longrightarrow>
   eventSource (run evs c) = None"
proof (induction evs arbitrary: c)
  case Nil
  then show ?case by (simp add: run_def)
next
  case (Cons ev evs)
  have n: "ev \<noteq> Connect" and m: "Connect \<notin> set evs" using Cons.prems(3) by auto
  note s = step_stays_closed [OF Cons.prems(1) Cons.prems(2) n]
  have "eventSource (run evs (step ev c)) = None"
    using s m by (intro Cons.IH) simp_all
  then show ?case by (simp add: run_def)
qed

lemma close_tracked_only:
  "fst ` set (timers c) \<subseteq> set_option (reconnectTimer c) \<Longrightarrow> timers (close c) = []"
  by (cases "reconnectTimer c")
     (auto simp: close_def clearTimeout_def Let_def filter_empty_conv split: option.splits)

text \<open>
  C8, at two transport errors followed by \<open>close()\<close>. Each error schedules a timeout and
  stores its identifier in \<open>reconnectTimer\<close>, over the previous one; \<open>close()\<close> clears only
  the stored one. The first timeout (identifier 1, delay 5000) is still pending after
  \<open>close()\<close>, and when it fires \<open>_createEventSource\<close> opens a second connection although
  \<open>isManualClose\<close> is set.
\<close>

theorem reconnect_after_close:
  "isManualClose closed_client
   \<and> eventSource closed_client = None
   \<and> reconnectTimer closed_client = None
   \<and> timers closed_client = [(1, 5000)]
   \<and> eventSource (step (TimerFired 1) closed_client) = Some 2
   \<and> sources (step (TimerFired 1) closed_client) = 2
   \<and> isManualClose (step (TimerFired 1) closed_client)"
  by (simp add: closed_client_def fresh_client_def sse_defs or_num_def Let_def)

section \<open>The fills of the P&L chart\<close>





lemma intersect_same:
  "intersectNeg prev p =
     pt_x prev + (pt_x p - pt_x prev) * (pt_value prev / (pt_value prev - pt_value p))"
proof -
  have "- pt_value prev / (pt_value p - pt_value prev) = pt_value prev / (pt_value prev - pt_value p)"
    by (metis minus_diff_eq minus_divide_divide)
  then show ?thesis by (simp add: intersectNeg_def)
qed

lemma intersectPos_same: "intersectPos prev p = intersectNeg prev p"
  by (simp add: intersect_same intersectPos_def)




























end
